theory Spec2Isabelle
  imports Main
begin

section \<open>Go values shared by both source files\<close>

text \<open>
  A Go call either returns or panics (a nil dereference, a failed type assertion).
  The panic is a result of its own, so that no model hides it behind a default value.
\<close>

datatype 'a go = Panics | Returns 'a

text \<open>
  \<^verbatim>\<open>strings.Split(s, sep)\<close> for a separator of one byte, the only way the sources call
  it (\<^verbatim>\<open>" "\<close>, \<^verbatim>\<open>"\n"\<close>, \<^verbatim>\<open>"="\<close>): the pieces between consecutive occurrences of the
  separator, one more piece than there are separators, empty pieces included.
  \<open>acc\<close> holds the bytes of the current piece, newest first.
\<close>

fun Split_from :: "string \<Rightarrow> char \<Rightarrow> string \<Rightarrow> string list" where
  "Split_from acc sep [] = [rev acc]"
| "Split_from acc sep (x # xs) =
     (if x = sep then rev acc # Split_from [] sep xs else Split_from (x # acc) sep xs)"

definition strings_Split :: "string \<Rightarrow> char \<Rightarrow> string list" where
  "strings_Split s sep = Split_from [] sep s"

section \<open>options.go: Command\<close>

text \<open>
  \<^verbatim>\<open>map[string]interface{}\<close> as docopt fills it: a value is nil, a bool, a string, a list
  of strings or an int. Indexing a Go map at an absent key yields the nil interface.
\<close>

datatype iface = Nil | Bool bool | Str string | Strs "string list" | Int int

record Command =
  M :: "string \<rightharpoonup> iface"

definition index :: "(string \<rightharpoonup> iface) \<Rightarrow> string \<Rightarrow> iface" where
  "index m k = (case m k of None \<Rightarrow> Nil | Some v \<Rightarrow> v)"

text \<open>The type assertion \<^verbatim>\<open>v.(bool)\<close>: panics unless the dynamic type is bool.\<close>

fun assert_bool :: "iface \<Rightarrow> bool go" where
  "assert_bool (Bool b) = Returns b"
| "assert_bool _ = Panics"

text \<open>The \<^verbatim>\<open>for _, term := range terms\<close> loop of \<^verbatim>\<open>Is\<close>, with \<open>hasAll\<close> threaded.\<close>

fun Is_loop :: "Command \<Rightarrow> string list \<Rightarrow> bool \<Rightarrow> bool go" where
  "Is_loop command [] hasAll = Returns hasAll"
| "Is_loop command (term # terms) hasAll =
     (case assert_bool (index (M command) term) of
        Panics \<Rightarrow> Panics
      | Returns b \<Rightarrow> Is_loop command terms (if \<not> b then False else hasAll))"

definition Is :: "Command \<Rightarrow> string \<Rightarrow> bool go" where
  "Is command c = Is_loop command (strings_Split c CHR '' '') True"

definition example_command :: Command where
  "example_command =
     \<lparr>M = [''datastore'' \<mapsto> Bool True, ''info'' \<mapsto> Bool True, ''signin'' \<mapsto> Bool False,
           ''<path>'' \<mapsto> Str ''.'']\<rparr>"

section \<open>The platform under the session code\<close>

text \<open>
  The session code talks to the terminal, the file system, the network and four
  libraries (yaml, net/url, net/http with its cookie jar, encoding/gob). None of them is
  part of the repository, so what they answer is a parameter of the model: a
  \<open>Platform\<close> fixes every answer, and each theorem below holds for every platform
  that meets its hypotheses.
\<close>

text \<open>A Go \<^verbatim>\<open>error\<close> value, identified by its message.\<close>

datatype error = Err string

definition errors_New :: "string \<Rightarrow> error" where
  "errors_New text = Err text"

text \<open>\<^verbatim>\<open>os.ErrInvalid\<close>, which every method of a nil \<^verbatim>\<open>*os.File\<close> returns.\<close>

definition ErrInvalid :: error where
  "ErrInvalid = Err ''invalid argument''"

text \<open>
  \<^verbatim>\<open>http.Cookie\<close>, a structure the code copies and never inspects; a selection of its
  fields stands for the whole.
\<close>

record Cookie =
  Name :: string
  Value :: string
  Domain :: string
  CookiePath :: string
  Expires :: string
  Secure :: bool
  HttpOnly :: bool

text \<open>
  A parsed \<^verbatim>\<open>*url.URL\<close>, which the code only hands on to the cookie jar: it is
  identified by the text it was parsed from.
\<close>

datatype URL = URL_of string

text \<open>
  A cookie jar, as the sequence of \<^verbatim>\<open>SetCookies\<close> calls it has received. Which of the
  stored cookies \<^verbatim>\<open>Cookies(u)\<close> hands out for a URL is the platform's answer.
\<close>

type_synonym Jar = "(URL \<times> Cookie list) list"

type_synonym Values = "(string \<times> string) list"

section \<open>Data of the session code\<close>

record AppURLHandler =
  URL :: string
  StaticDir :: string
  StaticFiles :: string
  Upload :: string
  Script :: string

record App =
  Application :: string
  Version :: string
  Runtime :: string
  APIVersion :: string
  Handlers :: "AppURLHandler list"

text \<open>Pointer fields are options: \<open>None\<close> is the nil pointer.\<close>

record Session =
  Local :: bool
  Source :: string
  ServiceHost :: string
  ServiceScheme :: string
  ServiceURL :: "URL option"
  AppHost :: string
  AppScheme :: string
  AppURL :: "URL option"
  App :: "App option"
  client :: "Jar option"

record CookieTray =
  Cookies :: "Cookie list"
  Path :: string

datatype fsop = OpOpen | OpCreate | OpRemove

record Platform =
  userCurrent :: "error + string"
    \<comment> \<open>\<^verbatim>\<open>user.Current()\<close>: the home directory of the current user, or an error\<close>
  denied :: "fsop \<Rightarrow> string \<Rightarrow> error option"
    \<comment> \<open>the error with which the operating system refuses an operation on a path\<close>
  yamlUnmarshal :: "string \<Rightarrow> error + App"
    \<comment> \<open>\<^verbatim>\<open>yaml.Unmarshal(bytes, &App{})\<close>\<close>
  urlError :: "string \<Rightarrow> error option"
    \<comment> \<open>the error with which \<^verbatim>\<open>url.Parse\<close> rejects a text\<close>
  valuesEncode :: "Values \<Rightarrow> string"
    \<comment> \<open>\<^verbatim>\<open>url.Values.Encode()\<close>\<close>
  httpGet :: "string \<Rightarrow> error + (error + string)"
    \<comment> \<open>\<^verbatim>\<open>http.Get(url)\<close>, and inside it what \<^verbatim>\<open>ioutil.ReadAll\<close> reads from the body\<close>
  clientGet :: "Jar \<Rightarrow> string \<Rightarrow> Jar \<times> error option"
    \<comment> \<open>\<^verbatim>\<open>client.Get(url)\<close> of the client that follows no redirect: the jar afterwards
       and the error\<close>
  jarCookies :: "Jar \<Rightarrow> URL \<Rightarrow> Cookie list"
    \<comment> \<open>\<^verbatim>\<open>jar.Cookies(u)\<close>\<close>
  gobEncode :: "CookieTray list \<Rightarrow> string \<times> error option"
    \<comment> \<open>\<^verbatim>\<open>gob.NewEncoder(f).Encode(trays)\<close>: the bytes written and the error\<close>
  gobDecode :: "string \<Rightarrow> error + CookieTray list"
    \<comment> \<open>\<^verbatim>\<open>gob.NewDecoder(f).Decode(&trays)\<close> on a file of these bytes\<close>
  makeRaw :: "error option"
    \<comment> \<open>the error of \<^verbatim>\<open>terminal.MakeRaw(0)\<close>\<close>
  readLine :: "string \<times> error option"
    \<comment> \<open>\<^verbatim>\<open>t.ReadLine()\<close>\<close>
  readPassword :: "string \<times> error option"
    \<comment> \<open>\<^verbatim>\<open>t.ReadPassword("Password: ")\<close>\<close>

text \<open>
  What the code changes: the files, and the network requests it has sent (oldest first).
\<close>

record World =
  files :: "string \<rightharpoonup> string"
  requests :: "string list"

section \<open>Library calls\<close>

definition not_exist :: "string \<Rightarrow> string \<Rightarrow> error" where
  "not_exist op name = Err (op @ '' '' @ name @ '': no such file or directory'')"

definition ioutil_ReadFile :: "Platform \<Rightarrow> World \<Rightarrow> string \<Rightarrow> error + string" where
  "ioutil_ReadFile p w name =
     (case denied p OpOpen name of
        Some err \<Rightarrow> Inl err
      | None \<Rightarrow> (case files w name of None \<Rightarrow> Inl (not_exist ''open'' name) | Some bytes \<Rightarrow> Inr bytes))"

text \<open>\<^verbatim>\<open>os.Open\<close>: the handle is modelled by the bytes a reader gets from it.\<close>

definition os_Open :: "Platform \<Rightarrow> World \<Rightarrow> string \<Rightarrow> error + string" where
  "os_Open p w name =
     (case denied p OpOpen name of
        Some err \<Rightarrow> Inl err
      | None \<Rightarrow> (case files w name of None \<Rightarrow> Inl (not_exist ''open'' name) | Some bytes \<Rightarrow> Inr bytes))"

text \<open>\<^verbatim>\<open>os.Create\<close> creates or truncates; the handle is modelled by the file's name.\<close>

definition os_Create :: "Platform \<Rightarrow> World \<Rightarrow> string \<Rightarrow> World \<times> (error + string)" where
  "os_Create p w name =
     (case denied p OpCreate name of
        Some err \<Rightarrow> (w, Inl err)
      | None \<Rightarrow> (w\<lparr>files := (files w)(name \<mapsto> [])\<rparr>, Inr name))"

definition os_Remove :: "Platform \<Rightarrow> World \<Rightarrow> string \<Rightarrow> World \<times> error option" where
  "os_Remove p w name =
     (case denied p OpRemove name of
        Some err \<Rightarrow> (w, Some err)
      | None \<Rightarrow>
          (case files w name of
             None \<Rightarrow> (w, Some (not_exist ''remove'' name))
           | Some bytes \<Rightarrow> (w\<lparr>files := (files w)(name := None)\<rparr>, None)))"

definition url_Parse :: "Platform \<Rightarrow> string \<Rightarrow> error + URL" where
  "url_Parse p text = (case urlError p text of Some err \<Rightarrow> Inl err | None \<Rightarrow> Inr (URL_of text))"

text \<open>\<^verbatim>\<open>cookiejar.New(nil)\<close>: an empty jar, and never an error.\<close>

definition cookiejar_New :: "Jar \<times> error option" where
  "cookiejar_New = ([], None)"

definition jar_SetCookies :: "Jar \<Rightarrow> URL \<Rightarrow> Cookie list \<Rightarrow> Jar" where
  "jar_SetCookies jar u cookies = jar @ [(u, cookies)]"

text \<open>\<^verbatim>\<open>jar.Cookies(u)\<close> reads \<^verbatim>\<open>u.Scheme\<close> first: a nil URL panics.\<close>

definition jar_Cookies :: "Platform \<Rightarrow> Jar \<Rightarrow> URL option \<Rightarrow> Cookie list go" where
  "jar_Cookies p jar u = (case u of None \<Rightarrow> Panics | Some u \<Rightarrow> Returns (jarCookies p jar u))"

text \<open>\<^verbatim>\<open>url.Values.Set(key, value)\<close> replaces what the key had.\<close>

fun Values_Set :: "Values \<Rightarrow> string \<Rightarrow> string \<Rightarrow> Values" where
  "Values_Set [] key v = [(key, v)]"
| "Values_Set ((k, old) # rest) key v =
     (if k = key then (key, v) # rest else (k, old) # Values_Set rest key v)"

text \<open>Indexing a \<^verbatim>\<open>map[string]string\<close>, nil or not: an absent key reads as \<^verbatim>\<open>""\<close>.\<close>

definition lookup :: "(string \<rightharpoonup> string) \<Rightarrow> string \<Rightarrow> string" where
  "lookup m k = (case m k of None \<Rightarrow> [] | Some v \<Rightarrow> v)"

text \<open>A GET of the sign-in client: the request is recorded, the jar is the platform's.\<close>

definition client_Get ::
  "Platform \<Rightarrow> Jar \<Rightarrow> string \<Rightarrow> World \<Rightarrow> World \<times> Jar \<times> error option" where
  "client_Get p jar url w =
     (let (jar, err) = clientGet p jar url in (w\<lparr>requests := requests w @ [url]\<rparr>, jar, err))"

section \<open>readApp, NewSession\<close>

definition readApp :: "Platform \<Rightarrow> World \<Rightarrow> string \<Rightarrow> App option \<times> error option" where
  "readApp p w path =
     (case ioutil_ReadFile p w (path @ ''/app.yaml'') of
        Inl err \<Rightarrow> (None, Some err)
      | Inr bytes \<Rightarrow>
          (case yamlUnmarshal p bytes of
             Inl err \<Rightarrow> (None, Some err)
           | Inr app \<Rightarrow> (Some app, None)))"

text \<open>\<^verbatim>\<open>u, _ := user.Current(); return u.HomeDir + "/.cookies"\<close>: a failed lookup leaves
  \<^verbatim>\<open>u\<close> nil, and the field access panics.\<close>

definition cookieFileName :: "Platform \<Rightarrow> Session \<Rightarrow> string go" where
  "cookieFileName p session =
     (case userCurrent p of Inl err \<Rightarrow> Panics | Inr HomeDir \<Rightarrow> Returns (HomeDir @ ''/.cookies''))"

text \<open>The loop over the decoded trays: a tray whose path does not parse is skipped.\<close>

fun NewSession_trays :: "Platform \<Rightarrow> Jar \<Rightarrow> CookieTray list \<Rightarrow> Jar" where
  "NewSession_trays p jar [] = jar"
| "NewSession_trays p jar (cookieTray # cookieTrays) =
     (case url_Parse p (Path cookieTray) of
        Inr url \<Rightarrow> NewSession_trays p (jar_SetCookies jar url (Cookies cookieTray)) cookieTrays
      | Inl err \<Rightarrow> NewSession_trays p jar cookieTrays)"

text \<open>
  \<^verbatim>\<open>NewSession\<close>. The variable \<open>err\<close> is the one named result throughout: the
  error of \<^verbatim>\<open>readApp\<close> is overwritten by \<^verbatim>\<open>url.Parse\<close> and by \<^verbatim>\<open>cookiejar.New\<close>, and
  the latter's is what the last line returns. In remote mode \<^verbatim>\<open>app.Application\<close>
  dereferences \<open>app\<close>.
\<close>

definition NewSession ::
  "Platform \<Rightarrow> World \<Rightarrow> string \<Rightarrow> bool \<Rightarrow> (Session option \<times> error option) go" where
  "NewSession p w path local =
     (let (app, err) = readApp p w path;
          session = \<lparr>Local = local, Source = [], ServiceHost = [], ServiceScheme = [],
                     ServiceURL = None, AppHost = [], AppScheme = [], AppURL = None,
                     App = app, client = None\<rparr>
      in case (if local
               then Returns (session\<lparr>ServiceHost := ''localhost:8000'', ServiceScheme := ''http'',
                                      AppHost := ''localhost:8080'', AppScheme := ''http''\<rparr>)
               else (case app of
                       None \<Rightarrow> Panics
                     | Some a \<Rightarrow>
                         Returns (session\<lparr>ServiceHost := ''appengine.google.com'',
                                          ServiceScheme := ''https'',
                                          AppHost := Application a @ ''.appspot.com'',
                                          AppScheme := ''https''\<rparr>))) of
           Panics \<Rightarrow> Panics
         | Returns session \<Rightarrow>
             (case url_Parse p (ServiceScheme session @ ''://'' @ ServiceHost session) of
                Inl err \<Rightarrow> Returns (None, Some err)
              | Inr serviceURL \<Rightarrow>
                  (case url_Parse p (AppScheme session @ ''://'' @ AppHost session) of
                     Inl err \<Rightarrow> Returns (None, Some err)
                   | Inr appURL \<Rightarrow>
                       (let session = session\<lparr>ServiceURL := Some serviceURL, AppURL := Some appURL\<rparr>;
                            (jar, err) = cookiejar_New
                        in case cookieFileName p session of
                             Panics \<Rightarrow> Panics
                           | Returns name \<Rightarrow>
                               (let jar =
                                  (case os_Open p w name of
                                     Inl readerr \<Rightarrow> jar
                                   | Inr f \<Rightarrow>
                                       (case gobDecode p f of
                                          Inl readerr \<Rightarrow> jar
                                        | Inr cookieTrays \<Rightarrow> NewSession_trays p jar cookieTrays))
                                in Returns (Some (session\<lparr>client := Some jar\<rparr>), err))))))"

section \<open>readCredentials, Signin, Signout\<close>

text \<open>
  \<^verbatim>\<open>readCredentials\<close>: \<open>err\<close> is assigned by each terminal call, and the last line
  returns the constant nil in its place.
\<close>

definition readCredentials :: "Platform \<Rightarrow> string \<times> string \<times> error option" where
  "readCredentials p =
     (let err = makeRaw p
      in if err = None
         then (let (username, err) = readLine p
               in if err = None
                  then (let (password, err) = readPassword p in (username, password, None))
                  else (username, [], None))
         else ([], [], None))"

text \<open>The request of stage 1, \<^verbatim>\<open>"https://www.google.com/accounts/ClientLogin?" + v.Encode()\<close>.\<close>

definition ClientLogin :: "Platform \<Rightarrow> string \<Rightarrow> string \<Rightarrow> string" where
  "ClientLogin p username password =
     ''https://www.google.com/accounts/ClientLogin?'' @
       valuesEncode p
         (Values_Set (Values_Set (Values_Set (Values_Set (Values_Set []
            ''Email'' username) ''Passwd'' password) ''source'' ''Google-appcfg-1.9.17'')
            ''accountType'' ''HOSTED_OR_GOOGLE'') ''service'' ''ah'')"

text \<open>The loop over the lines of the response: a line with exactly one \<^verbatim>\<open>=\<close> sets a key.\<close>

fun Signin_values :: "string list \<Rightarrow> (string \<rightharpoonup> string) \<Rightarrow> (string \<rightharpoonup> string)" where
  "Signin_values [] values = values"
| "Signin_values (line # lines) values =
     (case strings_Split line CHR ''='' of
        [key, v] \<Rightarrow> Signin_values lines (values(key \<mapsto> v))
      | _ \<Rightarrow> Signin_values lines values)"

text \<open>
  Stage 1 of \<^verbatim>\<open>Signin\<close> (the block under \<^verbatim>\<open>if !session.Local\<close>): \<open>Inl\<close> is an early
  return with that error, \<open>Inr\<close> the map \<open>values\<close>, which stays nil in local mode.
  (The code also prints the map.)
\<close>

definition Signin_authenticate ::
  "Platform \<Rightarrow> Session \<Rightarrow> string \<Rightarrow> string \<Rightarrow> World \<Rightarrow> World \<times> (error + (string \<rightharpoonup> string))" where
  "Signin_authenticate p session username password w =
     (if \<not> Local session
      then (let url = ClientLogin p username password;
                w = w\<lparr>requests := requests w @ [url]\<rparr>
            in case httpGet p url of
                 Inl err \<Rightarrow> (w, Inl err)
               | Inr body \<Rightarrow>
                   (case body of
                      Inl err \<Rightarrow> (w, Inl err)
                    | Inr contents \<Rightarrow>
                        (let values = Signin_values (strings_Split contents (CHR 0x0A)) Map.empty
                         in case values ''Error'' of
                              Some errorMessage \<Rightarrow> (w, Inl (errors_New errorMessage))
                            | None \<Rightarrow> (w, Inr values))))
      else (w, Inr Map.empty))"

text \<open>The query \<open>v2\<close> of the two login requests.\<close>

definition Signin_query :: "Session \<Rightarrow> (string \<rightharpoonup> string) \<Rightarrow> string \<Rightarrow> Values" where
  "Signin_query session values username =
     (let v2 = Values_Set (Values_Set [] ''continue'' ''http://localhost'')
                 ''auth'' (lookup values ''Auth'')
      in if Local session
         then Values_Set (Values_Set (Values_Set v2 ''admin'' ''True'') ''action'' ''Login'')
                ''email'' username
         else v2)"

text \<open>The two login requests of stage 2.\<close>

definition serviceLogin :: "Platform \<Rightarrow> Session \<Rightarrow> Values \<Rightarrow> string" where
  "serviceLogin p session v2 =
     ServiceScheme session @ ''://'' @ ServiceHost session @ ''/_ah/login?'' @ valuesEncode p v2"

definition appLogin :: "Platform \<Rightarrow> Session \<Rightarrow> Values \<Rightarrow> string" where
  "appLogin p session v2 =
     AppScheme session @ ''://'' @ AppHost session @ ''/_ah/login?'' @ valuesEncode p v2"

text \<open>
  Stage 2: the GET of the service login path, then the GET of the application login
  path when the application identifier is not empty. Each assigns \<open>err\<close>, and nothing
  reads it. \<^verbatim>\<open>session.App.Application\<close> dereferences \<open>App\<close>.
\<close>

definition Signin_login ::
  "Platform \<Rightarrow> Session \<Rightarrow> Values \<Rightarrow> Jar \<Rightarrow> World \<Rightarrow> (World \<times> Jar \<times> error option) go" where
  "Signin_login p session v2 jar w =
     (let (w, jar, err) = client_Get p jar (serviceLogin p session v2) w
      in case App session of
           None \<Rightarrow> Panics
         | Some app \<Rightarrow>
             (if length (Application app) > 0
              then Returns (client_Get p jar (appLogin p session v2) w)
              else Returns (w, jar, err)))"

text \<open>
  Saving: two trays are appended whatever the application identifier is, the
  application's first. The error of \<^verbatim>\<open>os.Create\<close> is not read; after a failed create
  the file is nil and the encoder's first write returns \<^verbatim>\<open>os.ErrInvalid\<close>.
\<close>

definition Signin_save :: "Platform \<Rightarrow> Session \<Rightarrow> Jar \<Rightarrow> World \<Rightarrow> (World \<times> error option) go" where
  "Signin_save p session jar w =
     (case jar_Cookies p jar (AppURL session) of
        Panics \<Rightarrow> Panics
      | Returns appCookies \<Rightarrow>
          (case jar_Cookies p jar (ServiceURL session) of
             Panics \<Rightarrow> Panics
           | Returns serviceCookies \<Rightarrow>
               (let cookieTrays =
                      [\<lparr>Cookies = appCookies, Path = AppScheme session @ ''://'' @ AppHost session\<rparr>,
                       \<lparr>Cookies = serviceCookies,
                        Path = ServiceScheme session @ ''://'' @ ServiceHost session\<rparr>]
                in case cookieFileName p session of
                     Panics \<Rightarrow> Panics
                   | Returns name \<Rightarrow>
                       (case os_Create p w name of
                          (w, Inl err) \<Rightarrow> Returns (w, Some ErrInvalid)
                        | (w, Inr f) \<Rightarrow>
                            (let (bytes, err) = gobEncode p cookieTrays
                             in Returns (w\<lparr>files := (files w)(f \<mapsto> bytes)\<rparr>, err))))))"

definition Signin :: "Platform \<Rightarrow> Session \<Rightarrow> World \<Rightarrow> (World \<times> error option) go" where
  "Signin p session w =
     (let (username, password, err) = readCredentials p;
          jar = fst cookiejar_New
      in case Signin_authenticate p session username password w of
           (w, Inl err) \<Rightarrow> Returns (w, Some err)
         | (w, Inr values) \<Rightarrow>
             (case Signin_login p session (Signin_query session values username) jar w of
                Panics \<Rightarrow> Panics
              | Returns (w, jar, err) \<Rightarrow> Signin_save p session jar w))"

definition Signout :: "Platform \<Rightarrow> Session \<Rightarrow> World \<Rightarrow> (World \<times> error option) go" where
  "Signout p session w =
     (case cookieFileName p session of
        Panics \<Rightarrow> Panics
      | Returns name \<Rightarrow> Returns (os_Remove p w name))"

section \<open>The cookie file on its own\<close>

text \<open>
  The two file steps of the code, for any sequence of trays and any file name. Writing is
  what \<^verbatim>\<open>Signin\<close> does with its trays (\<^verbatim>\<open>os.Create\<close>, then \<^verbatim>\<open>Encode\<close> on the file);
  reading is what \<^verbatim>\<open>NewSession\<close> does before its loop (\<^verbatim>\<open>os.Open\<close>, then \<^verbatim>\<open>Decode\<close>,
  each with its \<open>readerr\<close>). The lemmas \<open>Signin_save_writes\<close> and \<open>NewSession_reads\<close>
  below show that \<open>Signin_save\<close> and \<open>NewSession\<close> are built from them.
\<close>

definition Signin_write_trays ::
  "Platform \<Rightarrow> CookieTray list \<Rightarrow> string \<Rightarrow> World \<Rightarrow> World \<times> error option" where
  "Signin_write_trays p cookieTrays name w =
     (case os_Create p w name of
        (w, Inl err) \<Rightarrow> (w, Some ErrInvalid)
      | (w, Inr f) \<Rightarrow>
          (let (bytes, err) = gobEncode p cookieTrays
           in (w\<lparr>files := (files w)(f \<mapsto> bytes)\<rparr>, err)))"

definition NewSession_read_trays :: "Platform \<Rightarrow> World \<Rightarrow> string \<Rightarrow> error + CookieTray list" where
  "NewSession_read_trays p w name =
     (case os_Open p w name of
        Inl readerr \<Rightarrow> Inl readerr
      | Inr f \<Rightarrow>
          (case gobDecode p f of
             Inl readerr \<Rightarrow> Inl readerr
           | Inr cookieTrays \<Rightarrow> Inr cookieTrays))"

section \<open>An example platform\<close>

text \<open>
  One platform, for evaluating the code at concrete inputs: a user whose home is
  \<^verbatim>\<open>/home/alice\<close>, a file system that refuses nothing, an identity provider that answers
  with a token, and login endpoints that set a cookie and redirect (which the sign-in
  client reports as an error). Its jar hands out name and value of the cookies stored
  under a URL that starts with the one asked for. Its codec is a table: it writes a
  rendering of the trays as text, and reads back the one file that a sign-in to
  \<^verbatim>\<open>myapp\<close> writes on this platform.
\<close>

definition example_app :: "string \<Rightarrow> App" where
  "example_app name =
     \<lparr>Application = name, Version = ''1'', Runtime = ''go'', APIVersion = ''go1'', Handlers = []\<rparr>"

definition example_cookie :: Cookie where
  "example_cookie =
     \<lparr>Name = ''ACSID'', Value = ''AJKiYcE'', Domain = ''appengine.google.com'', CookiePath = ''/'',
      Expires = ''Mon, 02 Nov 2026 10:00:00 GMT'', Secure = True, HttpOnly = True\<rparr>"

definition example_render :: "CookieTray list \<Rightarrow> string" where
  "example_render trays =
     concat (map (\<lambda>tray. Path tray @ '' '' @
                    concat (map (\<lambda>c. Name c @ ''='' @ Value c @ '';'') (Cookies tray)) @ ''|'')
               trays)"

definition example_bare_cookie :: Cookie where
  "example_bare_cookie =
     \<lparr>Name = ''ACSID'', Value = ''AJKiYcE'', Domain = [], CookiePath = [], Expires = [],
      Secure = False, HttpOnly = False\<rparr>"

definition example_trays :: "CookieTray list" where
  "example_trays =
     [\<lparr>Cookies = [example_bare_cookie], Path = ''https://myapp.appspot.com''\<rparr>,
      \<lparr>Cookies = [example_bare_cookie], Path = ''https://appengine.google.com''\<rparr>]"

definition example_jarCookies :: "Jar \<Rightarrow> URL \<Rightarrow> Cookie list" where
  "example_jarCookies jar u =
     concat (map (\<lambda>(v, cookies).
                    case (u, v) of
                      (URL_of a, URL_of b) \<Rightarrow>
                        if take (length a) b = a
                        then map (\<lambda>c. \<lparr>Name = Name c, Value = Value c, Domain = [], CookiePath = [],
                                        Expires = [], Secure = False, HttpOnly = False\<rparr>) cookies
                        else [])
               jar)"

definition example_platform :: Platform where
  "example_platform =
     \<lparr>userCurrent = Inr ''/home/alice'',
      denied = (\<lambda>op name. None),
      yamlUnmarshal =
        (\<lambda>bytes. if bytes = ''application: myapp'' then Inr (example_app ''myapp'')
                  else if bytes = ''runtime: go'' then Inr (example_app [])
                  else Inl (Err ''yaml: unmarshal errors'')),
      urlError =
        (\<lambda>text. if CHR '' '' \<in> set text then Some (Err ''parse: invalid character in host name'')
                 else None),
      valuesEncode = (\<lambda>v. concat (map (\<lambda>(k, x). k @ ''='' @ x @ ''&'') v)),
      httpGet = (\<lambda>url. Inr (Inr (''SID=s1'' @ [CHR 0x0A] @ ''Auth=tok'' @ [CHR 0x0A]))),
      clientGet =
        (\<lambda>jar url. (jar @ [(URL_of url, [example_cookie])], Some (Err ''redirect not followed''))),
      jarCookies = example_jarCookies,
      gobEncode = (\<lambda>trays. (example_render trays, None)),
      gobDecode =
        (\<lambda>bytes. if bytes = example_render example_trays then Inr example_trays
                  else Inl (Err ''gob: encoded data corrupt'')),
      makeRaw = None,
      readLine = (''alice@example.com'', None),
      readPassword = (''secret'', None)\<rparr>"

text \<open>The same platform with login endpoints that cannot be reached: the jar stays empty.\<close>

definition login_down_platform :: Platform where
  "login_down_platform =
     example_platform\<lparr>clientGet := (\<lambda>jar url. (jar, Some (Err ''dial tcp: connection refused'')))\<rparr>"

text \<open>The same platform with an identity provider that rejects the credentials.\<close>

definition bad_credentials_platform :: Platform where
  "bad_credentials_platform =
     example_platform\<lparr>httpGet := (\<lambda>url. Inr (Inr (''Error=BadAuthentication'' @ [CHR 0x0A])))\<rparr>"

definition example_world :: World where
  "example_world = \<lparr>files = [''/srv/app/app.yaml'' \<mapsto> ''application: myapp''], requests = []\<rparr>"

text \<open>
  The session that \<^verbatim>\<open>NewSession\<close> builds in remote mode for an application identifier
  when there is no cookie file.
\<close>

definition example_session :: "string \<Rightarrow> Session" where
  "example_session name =
     \<lparr>Local = False, Source = [], ServiceHost = ''appengine.google.com'', ServiceScheme = ''https'',
      ServiceURL = Some (URL_of ''https://appengine.google.com''),
      AppHost = name @ ''.appspot.com'', AppScheme = ''https'',
      AppURL = Some (URL_of (''https://'' @ name @ ''.appspot.com'')),
      App = Some (example_app name), client = Some []\<rparr>"

section \<open>Command.Is\<close>

lemma Is_loop_all_bool:
  "\<forall>t \<in> set terms. \<exists>b. M command t = Some (Bool b) \<Longrightarrow>
   Is_loop command terms hasAll =
     Returns (hasAll \<and> (\<forall>t \<in> set terms. M command t = Some (Bool True)))"
proof (induction terms arbitrary: hasAll)
  case Nil
  then show ?case by simp
next
  case (Cons t terms)
  from Cons.prems obtain b where b: "M command t = Some (Bool b)" by auto
  from Cons.prems have rest: "\<forall>t \<in> set terms. \<exists>b. M command t = Some (Bool b)" by simp
  show ?case
    using Cons.IH [OF rest] b by (cases b) (auto simp: index_def)
qed

lemma Is_loop_not_bool:
  "\<exists>t \<in> set terms. \<forall>b. M command t \<noteq> Some (Bool b) \<Longrightarrow> Is_loop command terms hasAll = Panics"
proof (induction terms arbitrary: hasAll)
  case Nil
  then show ?case by simp
next
  case (Cons t terms)
  show ?case
  proof (cases "assert_bool (index (M command) t)")
    case Panics
    then show ?thesis by simp
  next
    case (Returns b)
    then have "M command t = Some (Bool b)"
      by (cases "M command t"; cases "index (M command) t") (auto simp: index_def)
    with Cons.prems have "\<exists>t \<in> set terms. \<forall>b. M command t \<noteq> Some (Bool b)" by auto
    from Cons.IH [OF this] Returns show ?thesis by simp
  qed
qed

text \<open>
  C10. The terms of a query string \<open>c\<close> are the pieces that \<^verbatim>\<open>strings.Split(c, " ")\<close>
  cuts at every space. When the map of the command gives every term a boolean,
  \<^verbatim>\<open>Is(c)\<close> returns, and returns true exactly when every term is mapped to true. When
  some term is absent from the map or mapped to a value that is no boolean, the call
  returns nothing: the type assertion panics.
\<close>

theorem Is_true_iff_all_terms_true:
  "((\<forall>t \<in> set (strings_Split c CHR '' ''). \<exists>b. M command t = Some (Bool b)) \<longrightarrow>
      Is command c =
        Returns (\<forall>t \<in> set (strings_Split c CHR '' ''). M command t = Some (Bool True)))
   \<and> ((\<exists>t \<in> set (strings_Split c CHR '' ''). \<forall>b. M command t \<noteq> Some (Bool b)) \<longrightarrow>
      Is command c = Panics)"
  using Is_loop_all_bool [of "strings_Split c CHR '' ''" command True]
    Is_loop_not_bool [of "strings_Split c CHR '' ''" command True]
  by (simp add: Is_def)

theorem Is_true_iff_all_terms_true_witness:
  "Is example_command ''datastore info'' = Returns True
   \<and> Is example_command ''datastore signin'' = Returns False
   \<and> Is example_command ''datastore <path>'' = Panics
   \<and> Is example_command ''datastore missing'' = Panics"
proof -
  have t1: "strings_Split ''datastore info'' CHR '' '' = [''datastore'', ''info'']"
    and t2: "strings_Split ''datastore signin'' CHR '' '' = [''datastore'', ''signin'']"
    and t3: "strings_Split ''datastore <path>'' CHR '' '' = [''datastore'', ''<path>'']"
    and t4: "strings_Split ''datastore missing'' CHR '' '' = [''datastore'', ''missing'']"
    by (simp_all add: strings_Split_def)
  have h1: "\<forall>t \<in> set (strings_Split ''datastore info'' CHR '' '').
              \<exists>b. M example_command t = Some (Bool b)"
    and h2: "\<forall>t \<in> set (strings_Split ''datastore signin'' CHR '' '').
              \<exists>b. M example_command t = Some (Bool b)"
    and h3: "\<exists>t \<in> set (strings_Split ''datastore <path>'' CHR '' '').
              \<forall>b. M example_command t \<noteq> Some (Bool b)"
    and h4: "\<exists>t \<in> set (strings_Split ''datastore missing'' CHR '' '').
              \<forall>b. M example_command t \<noteq> Some (Bool b)"
    unfolding t1 t2 t3 t4 by (auto simp: example_command_def)
  have "Is example_command ''datastore info'' =
          Returns (\<forall>t \<in> set (strings_Split ''datastore info'' CHR '' '').
                     M example_command t = Some (Bool True))"
    using Is_true_iff_all_terms_true [of "''datastore info''" example_command] h1 by blast
  then have r1: "Is example_command ''datastore info'' = Returns True"
    unfolding t1 by (simp add: example_command_def)
  have "Is example_command ''datastore signin'' =
          Returns (\<forall>t \<in> set (strings_Split ''datastore signin'' CHR '' '').
                     M example_command t = Some (Bool True))"
    using Is_true_iff_all_terms_true [of "''datastore signin''" example_command] h2 by blast
  then have r2: "Is example_command ''datastore signin'' = Returns False"
    unfolding t2 by (simp add: example_command_def)
  have r3: "Is example_command ''datastore <path>'' = Panics"
    using Is_true_iff_all_terms_true [of "''datastore <path>''" example_command] h3 by blast
  have r4: "Is example_command ''datastore missing'' = Panics"
    using Is_true_iff_all_terms_true [of "''datastore missing''" example_command] h4 by blast
  from r1 r2 r3 r4 show ?thesis by simp
qed

section \<open>Lemmas on the library calls and on the example platform\<close>

lemma Split_from_not_Nil: "Split_from acc sep xs \<noteq> []"
  by (induction xs arbitrary: acc) auto

lemma Split_from_one: "Split_from acc sep xs = [b] \<Longrightarrow> rev acc @ xs = b"
proof (induction xs arbitrary: acc)
  case Nil
  then show ?case by simp
next
  case (Cons x xs)
  show ?case
  proof (cases "x = sep")
    case True
    with Cons.prems show ?thesis by (simp add: Split_from_not_Nil)
  next
    case False
    with Cons.prems have "Split_from (x # acc) sep xs = [b]" by simp
    from Cons.IH [OF this] show ?thesis by simp
  qed
qed

lemma Split_from_two:
  "Split_from acc sep xs = [a, b] \<Longrightarrow> rev acc @ xs = a @ sep # b"
proof (induction xs arbitrary: acc)
  case Nil
  then show ?case by simp
next
  case (Cons x xs)
  show ?case
  proof (cases "x = sep")
    case True
    with Cons.prems have a: "a = rev acc" and rest: "Split_from [] sep xs = [b]" by simp_all
    from Split_from_one [OF rest] a True show ?thesis by simp
  next
    case False
    with Cons.prems have "Split_from (x # acc) sep xs = [a, b]" by simp
    from Cons.IH [OF this] show ?thesis by simp
  qed
qed

lemma strings_Split_two: "strings_Split line sep = [key, v] \<Longrightarrow> line = key @ sep # v"
  using Split_from_two [of "[]" sep line key v] by (simp add: strings_Split_def)

lemma Signin_values_key:
  "Signin_values lines m k = Some v \<Longrightarrow>
   m k = Some v \<or> (\<exists>line \<in> set lines. strings_Split line CHR ''='' = [k, v])"
proof (induction lines arbitrary: m)
  case Nil
  then show ?case by simp
next
  case (Cons line lines)
  show ?case
  proof (cases "\<exists>key x. strings_Split line CHR ''='' = [key, x]")
    case True
    then obtain key x where kx: "strings_Split line CHR ''='' = [key, x]" by blast
    with Cons.prems have "Signin_values lines (m(key \<mapsto> x)) k = Some v" by simp
    from Cons.IH [OF this] kx show ?thesis by (auto split: if_splits)
  next
    case False
    then have "Signin_values (line # lines) m = Signin_values lines m"
      by (auto split: list.splits)
    with Cons.prems Cons.IH [of m] show ?thesis by auto
  qed
qed

lemma no_Error_line:
  assumes "\<forall>line \<in> set lines. take 6 line \<noteq> ''Error=''"
  shows "Signin_values lines Map.empty ''Error'' = None"
proof (cases "Signin_values lines Map.empty ''Error''")
  case None
  then show ?thesis .
next
  case (Some v)
  from Signin_values_key [OF this] obtain line
    where "line \<in> set lines" and "strings_Split line CHR ''='' = [''Error'', v]" by auto
  with strings_Split_two [of line "CHR ''=''" "''Error''" v] assms show ?thesis by auto
qed

lemma Signin_after_authenticate:
  assumes stage1:
      "Signin_authenticate p s (fst (readCredentials p)) (fst (snd (readCredentials p))) w =
         (w1, Inr values)"
    and app: "App s = Some app"
    and urls: "AppURL s = Some au" "ServiceURL s = Some su"
    and home: "userCurrent p = Inr home"
    and v2: "v2 = Signin_query s values (fst (readCredentials p))"
    and jar1: "jar1 = fst (clientGet p [] (serviceLogin p s v2))"
    and jar2: "jar2 = (if Application app = [] then jar1 else fst (clientGet p jar1 (appLogin p s v2)))"
    and trays: "trays = [\<lparr>Cookies = jarCookies p jar2 au, Path = AppScheme s @ ''://'' @ AppHost s\<rparr>,
                        \<lparr>Cookies = jarCookies p jar2 su,
                         Path = ServiceScheme s @ ''://'' @ ServiceHost s\<rparr>]"
    and reqs: "reqs = requests w1 @
                 (if Application app = [] then [serviceLogin p s v2]
                  else [serviceLogin p s v2, appLogin p s v2])"
  shows "Signin p s w =
           (case denied p OpCreate (home @ ''/.cookies'') of
              Some err \<Rightarrow> Returns (w1\<lparr>requests := reqs\<rparr>, Some ErrInvalid)
            | None \<Rightarrow>
                Returns (w1\<lparr>requests := reqs,
                            files := (files w1)(home @ ''/.cookies'' \<mapsto> fst (gobEncode p trays))\<rparr>,
                         snd (gobEncode p trays)))"
  using stage1 app urls home
  unfolding v2 jar1 jar2 trays reqs
  by (cases "readCredentials p")
    (auto simp: Signin_def Signin_login_def Signin_save_def client_Get_def jar_Cookies_def
      cookieFileName_def os_Create_def cookiejar_New_def Let_def
      split: prod.splits option.splits)

lemma example_credentials:
  "readCredentials example_platform = (''alice@example.com'', ''secret'', None)"
  by (simp add: readCredentials_def example_platform_def)

lemma example_authenticate:
  "Signin_authenticate example_platform (example_session name) ''alice@example.com'' ''secret''
     example_world =
   (example_world\<lparr>requests := [ClientLogin example_platform ''alice@example.com'' ''secret'']\<rparr>,
    Inr [''SID'' \<mapsto> ''s1'', ''Auth'' \<mapsto> ''tok''])"
  by (simp add: Signin_authenticate_def example_session_def example_platform_def
      example_world_def strings_Split_def Let_def)

lemma login_down_authenticate:
  "Signin_authenticate login_down_platform (example_session name) ''alice@example.com'' ''secret''
     example_world =
   (example_world\<lparr>requests := [ClientLogin login_down_platform ''alice@example.com'' ''secret'']\<rparr>,
    Inr [''SID'' \<mapsto> ''s1'', ''Auth'' \<mapsto> ''tok''])"
  by (simp add: Signin_authenticate_def example_session_def example_platform_def
      login_down_platform_def example_world_def strings_Split_def Let_def)

lemma login_down_credentials:
  "readCredentials login_down_platform = (''alice@example.com'', ''secret'', None)"
  by (simp add: readCredentials_def example_platform_def login_down_platform_def)

lemma example_query:
  "Signin_query (example_session name) [''SID'' \<mapsto> ''s1'', ''Auth'' \<mapsto> ''tok''] username =
     [(''continue'', ''http://localhost''), (''auth'', ''tok'')]"
  by (simp add: Signin_query_def example_session_def lookup_def)

lemma example_session_built:
  "NewSession example_platform example_world ''/srv/app'' False =
     Returns (Some (example_session ''myapp''), None)"
  "NewSession example_platform
     (example_world\<lparr>files := (files example_world)(''/srv/app/app.yaml'' \<mapsto> ''runtime: go'')\<rparr>)
     ''/srv/app'' False =
     Returns (Some (example_session []), None)"
  by (simp_all add: NewSession_def readApp_def ioutil_ReadFile_def url_Parse_def cookiejar_New_def
      cookieFileName_def Let_def example_platform_def example_world_def os_Open_def
      example_session_def example_app_def)

lemma readApp_example:
  "readApp example_platform example_world ''/srv/app'' = (Some (example_app ''myapp''), None)"
  by (simp add: readApp_def ioutil_ReadFile_def example_platform_def example_world_def)


lemma Signin_save_writes:
  "Signin_save p session jar w =
     (case jar_Cookies p jar (AppURL session) of
        Panics \<Rightarrow> Panics
      | Returns appCookies \<Rightarrow>
          (case jar_Cookies p jar (ServiceURL session) of
             Panics \<Rightarrow> Panics
           | Returns serviceCookies \<Rightarrow>
               (case cookieFileName p session of
                  Panics \<Rightarrow> Panics
                | Returns name \<Rightarrow>
                    Returns (Signin_write_trays p
                      [\<lparr>Cookies = appCookies, Path = AppScheme session @ ''://'' @ AppHost session\<rparr>,
                       \<lparr>Cookies = serviceCookies,
                        Path = ServiceScheme session @ ''://'' @ ServiceHost session\<rparr>]
                      name w))))"
  by (simp add: Signin_save_def Signin_write_trays_def Let_def split: go.splits prod.splits sum.splits)

lemma NewSession_reads:
  assumes app: "readApp p w path = (app, rerr)"
    and endpoints:
      "(local \<and> urlError p ''http://localhost:8000'' = None \<and>
          urlError p ''http://localhost:8080'' = None)
       \<or> (\<not> local \<and> (\<exists>a. app = Some a \<and> urlError p ''https://appengine.google.com'' = None \<and>
             urlError p (''https://'' @ Application a @ ''.appspot.com'') = None))"
    and home: "userCurrent p = Inr home"
  shows "\<exists>s. NewSession p w path local = Returns (Some s, None) \<and>
             client s =
               Some (case NewSession_read_trays p w (home @ ''/.cookies'') of
                       Inl readerr \<Rightarrow> []
                     | Inr cookieTrays \<Rightarrow> NewSession_trays p [] cookieTrays)"
proof -
  have jar: "(case os_Open p w (home @ ''/.cookies'') of
               Inl readerr \<Rightarrow> []
             | Inr f \<Rightarrow> (case gobDecode p f of
                           Inl readerr \<Rightarrow> []
                         | Inr cookieTrays \<Rightarrow> NewSession_trays p [] cookieTrays)) =
             (case NewSession_read_trays p w (home @ ''/.cookies'') of
                Inl readerr \<Rightarrow> []
              | Inr cookieTrays \<Rightarrow> NewSession_trays p [] cookieTrays)"
    by (simp add: NewSession_read_trays_def split: sum.splits)
  from endpoints show ?thesis
  proof
    assume "local \<and> urlError p ''http://localhost:8000'' = None \<and>
      urlError p ''http://localhost:8080'' = None"
    then show ?thesis
      using app home jar
      by (simp add: NewSession_def url_Parse_def cookiejar_New_def cookieFileName_def Let_def)
  next
    assume "\<not> local \<and> (\<exists>a. app = Some a \<and> urlError p ''https://appengine.google.com'' = None \<and>
             urlError p (''https://'' @ Application a @ ''.appspot.com'') = None)"
    then show ?thesis
      using app home jar
      by (auto simp: NewSession_def url_Parse_def cookiejar_New_def cookieFileName_def Let_def)
  qed
qed

lemma example_sign_in_writes:
  "Signin example_platform (example_session ''myapp'') example_world =
     Returns
       (example_world
          \<lparr>requests :=
             [ClientLogin example_platform ''alice@example.com'' ''secret'',
              serviceLogin example_platform (example_session ''myapp'')
                [(''continue'', ''http://localhost''), (''auth'', ''tok'')],
              appLogin example_platform (example_session ''myapp'')
                [(''continue'', ''http://localhost''), (''auth'', ''tok'')]],
           files := (files example_world)
             (''/home/alice/.cookies'' \<mapsto> fst (gobEncode example_platform example_trays))\<rparr>,
        None)"
proof -
  let ?s = "example_session ''myapp''"
  let ?v2 = "[(''continue'', ''http://localhost''), (''auth'', ''tok'')]"
  let ?jar1 = "[(URL_of (serviceLogin example_platform ?s ?v2), [example_cookie])]"
  let ?jar2 = "[(URL_of (serviceLogin example_platform ?s ?v2), [example_cookie]),
                (URL_of (appLogin example_platform ?s ?v2), [example_cookie])]"
  have stage1: "Signin_authenticate example_platform ?s
      (fst (readCredentials example_platform)) (fst (snd (readCredentials example_platform)))
      example_world =
      (example_world\<lparr>requests := [ClientLogin example_platform ''alice@example.com'' ''secret'']\<rparr>,
       Inr [''SID'' \<mapsto> ''s1'', ''Auth'' \<mapsto> ''tok''])"
    by (simp add: example_credentials example_authenticate)
  have app: "App ?s = Some (example_app ''myapp'')"
    and au: "AppURL ?s = Some (URL_of ''https://myapp.appspot.com'')"
    and su: "ServiceURL ?s = Some (URL_of ''https://appengine.google.com'')"
    by (simp_all add: example_session_def)
  have home: "userCurrent example_platform = Inr ''/home/alice''"
    by (simp add: example_platform_def)
  have v2: "?v2 = Signin_query ?s [''SID'' \<mapsto> ''s1'', ''Auth'' \<mapsto> ''tok'']
              (fst (readCredentials example_platform))"
    by (simp add: example_query)
  have jar1: "?jar1 = fst (clientGet example_platform [] (serviceLogin example_platform ?s ?v2))"
    by (simp add: example_platform_def)
  have jar2: "?jar2 = (if Application (example_app ''myapp'') = [] then ?jar1
                       else fst (clientGet example_platform ?jar1 (appLogin example_platform ?s ?v2)))"
    by (simp add: example_app_def example_platform_def)
  have trays:
    "example_trays =
     [\<lparr>Cookies = jarCookies example_platform ?jar2 (URL_of ''https://myapp.appspot.com''),
       Path = AppScheme ?s @ ''://'' @ AppHost ?s\<rparr>,
      \<lparr>Cookies = jarCookies example_platform ?jar2 (URL_of ''https://appengine.google.com''),
       Path = ServiceScheme ?s @ ''://'' @ ServiceHost ?s\<rparr>]"
    by (simp add: example_platform_def example_jarCookies_def example_session_def
        example_cookie_def example_bare_cookie_def example_trays_def serviceLogin_def appLogin_def)
  have reqs:
    "[ClientLogin example_platform ''alice@example.com'' ''secret'',
      serviceLogin example_platform ?s ?v2, appLogin example_platform ?s ?v2] =
     requests (example_world\<lparr>requests :=
                 [ClientLogin example_platform ''alice@example.com'' ''secret'']\<rparr>) @
       (if Application (example_app ''myapp'') = []
        then [serviceLogin example_platform ?s ?v2]
        else [serviceLogin example_platform ?s ?v2, appLogin example_platform ?s ?v2])"
    by (simp add: example_app_def)
  have create: "denied example_platform OpCreate (''/home/alice'' @ ''/.cookies'') = None"
    and encode: "\<And>trays. snd (gobEncode example_platform trays) = None"
    by (simp_all add: example_platform_def)
  show ?thesis
    unfolding Signin_after_authenticate [OF stage1 app au su home v2 jar1 jar2 trays reqs]
    using create encode by simp
qed

section \<open>NewSession\<close>

text \<open>
  C4. A session constructed for the application identifier \<^verbatim>\<open>myapp\<close>: in local mode the
  service endpoint is \<^verbatim>\<open>http://localhost:8000\<close> and the application endpoint is
  \<^verbatim>\<open>http://localhost:8080\<close>; in remote mode they are \<^verbatim>\<open>https://appengine.google.com\<close>
  and \<^verbatim>\<open>https://myapp.appspot.com\<close>. The platform's part is stated as hypotheses: the
  application descriptor was read, \<^verbatim>\<open>url.Parse\<close> accepts the four texts, and the current
  user is known (the name of the cookie file is computed from the home directory).
\<close>

theorem NewSession_endpoints_myapp:
  assumes app: "readApp p w path = (Some app, None)"
    and name: "Application app = ''myapp''"
    and home: "userCurrent p = Inr home"
    and u1: "urlError p ''http://localhost:8000'' = None"
    and u2: "urlError p ''http://localhost:8080'' = None"
    and u3: "urlError p ''https://appengine.google.com'' = None"
    and u4: "urlError p ''https://myapp.appspot.com'' = None"
  shows "(\<exists>s. NewSession p w path True = Returns (Some s, None) \<and>
              ServiceScheme s = ''http'' \<and> ServiceHost s = ''localhost:8000'' \<and>
              ServiceURL s = Some (URL_of ''http://localhost:8000'') \<and>
              AppScheme s = ''http'' \<and> AppHost s = ''localhost:8080'' \<and>
              AppURL s = Some (URL_of ''http://localhost:8080''))
       \<and> (\<exists>s. NewSession p w path False = Returns (Some s, None) \<and>
              ServiceScheme s = ''https'' \<and> ServiceHost s = ''appengine.google.com'' \<and>
              ServiceURL s = Some (URL_of ''https://appengine.google.com'') \<and>
              AppScheme s = ''https'' \<and> AppHost s = ''myapp.appspot.com'' \<and>
              AppURL s = Some (URL_of ''https://myapp.appspot.com''))"
  using assms
  by (simp add: NewSession_def url_Parse_def cookiejar_New_def cookieFileName_def Let_def)

theorem NewSession_endpoints_myapp_witness:
  "(\<exists>s. NewSession example_platform example_world ''/srv/app'' True = Returns (Some s, None) \<and>
        ServiceScheme s = ''http'' \<and> ServiceHost s = ''localhost:8000'' \<and>
        ServiceURL s = Some (URL_of ''http://localhost:8000'') \<and>
        AppScheme s = ''http'' \<and> AppHost s = ''localhost:8080'' \<and>
        AppURL s = Some (URL_of ''http://localhost:8080''))
   \<and> (\<exists>s. NewSession example_platform example_world ''/srv/app'' False = Returns (Some s, None) \<and>
        ServiceScheme s = ''https'' \<and> ServiceHost s = ''appengine.google.com'' \<and>
        ServiceURL s = Some (URL_of ''https://appengine.google.com'') \<and>
        AppScheme s = ''https'' \<and> AppHost s = ''myapp.appspot.com'' \<and>
        AppURL s = Some (URL_of ''https://myapp.appspot.com''))"
proof (rule NewSession_endpoints_myapp)
  show "readApp example_platform example_world ''/srv/app'' = (Some (example_app ''myapp''), None)"
    by (rule readApp_example)
  show "Application (example_app ''myapp'') = ''myapp''" by (simp add: example_app_def)
  show "userCurrent example_platform = Inr ''/home/alice''" by (simp add: example_platform_def)
  show "urlError example_platform ''http://localhost:8000'' = None"
    and "urlError example_platform ''http://localhost:8080'' = None"
    and "urlError example_platform ''https://appengine.google.com'' = None"
    and "urlError example_platform ''https://myapp.appspot.com'' = None"
    by (simp_all add: example_platform_def)
qed

text \<open>
  C5. When the cookie file is missing, or its bytes do not decode, a session
  construction that has resolved its endpoints returns a session and the nil error: the
  jar of the session's client is empty and both endpoint URLs are set. The endpoints
  resolve when \<^verbatim>\<open>url.Parse\<close> accepts their texts, which in remote mode are built from
  the application descriptor.
\<close>

theorem NewSession_without_cookies:
  assumes app: "readApp p w path = (app, rerr)"
    and endpoints:
      "(local \<and> urlError p ''http://localhost:8000'' = None \<and>
          urlError p ''http://localhost:8080'' = None)
       \<or> (\<not> local \<and> (\<exists>a. app = Some a \<and> urlError p ''https://appengine.google.com'' = None \<and>
             urlError p (''https://'' @ Application a @ ''.appspot.com'') = None))"
    and home: "userCurrent p = Inr home"
    and cookies:
      "files w (home @ ''/.cookies'') = None
       \<or> (\<exists>bytes err. files w (home @ ''/.cookies'') = Some bytes \<and> gobDecode p bytes = Inl err)"
  shows "\<exists>s. NewSession p w path local = Returns (Some s, None) \<and> client s = Some [] \<and>
             ServiceURL s = Some (URL_of (ServiceScheme s @ ''://'' @ ServiceHost s)) \<and>
             AppURL s = Some (URL_of (AppScheme s @ ''://'' @ AppHost s))"
proof -
  have jar: "(case os_Open p w (home @ ''/.cookies'') of
               Inl readerr \<Rightarrow> []
             | Inr f \<Rightarrow> (case gobDecode p f of
                           Inl readerr \<Rightarrow> []
                         | Inr cookieTrays \<Rightarrow> NewSession_trays p [] cookieTrays)) = []"
    using cookies by (auto simp: os_Open_def split: option.splits sum.splits)
  from endpoints show ?thesis
  proof
    assume "local \<and> urlError p ''http://localhost:8000'' = None \<and>
      urlError p ''http://localhost:8080'' = None"
    then show ?thesis
      using app home jar
      by (simp add: NewSession_def url_Parse_def cookiejar_New_def cookieFileName_def Let_def)
  next
    assume "\<not> local \<and> (\<exists>a. app = Some a \<and> urlError p ''https://appengine.google.com'' = None \<and>
             urlError p (''https://'' @ Application a @ ''.appspot.com'') = None)"
    then show ?thesis
      using app home jar
      by (auto simp: NewSession_def url_Parse_def cookiejar_New_def cookieFileName_def Let_def)
  qed
qed

theorem NewSession_without_cookies_witness:
  "(\<exists>s. NewSession example_platform example_world ''/srv/app'' False = Returns (Some s, None) \<and>
        client s = Some [] \<and>
        ServiceURL s = Some (URL_of (ServiceScheme s @ ''://'' @ ServiceHost s)) \<and>
        AppURL s = Some (URL_of (AppScheme s @ ''://'' @ AppHost s)))
   \<and> (\<exists>s. NewSession example_platform
            (example_world\<lparr>files := (files example_world)(''/home/alice/.cookies'' \<mapsto> ''garbage'')\<rparr>)
            ''/tmp'' True = Returns (Some s, None) \<and>
        client s = Some [] \<and>
        ServiceURL s = Some (URL_of (ServiceScheme s @ ''://'' @ ServiceHost s)) \<and>
        AppURL s = Some (URL_of (AppScheme s @ ''://'' @ AppHost s)))"
proof
  show "\<exists>s. NewSession example_platform example_world ''/srv/app'' False = Returns (Some s, None) \<and>
        client s = Some [] \<and>
        ServiceURL s = Some (URL_of (ServiceScheme s @ ''://'' @ ServiceHost s)) \<and>
        AppURL s = Some (URL_of (AppScheme s @ ''://'' @ AppHost s))"
  proof (rule NewSession_without_cookies [where home = "''/home/alice''"])
    show "readApp example_platform example_world ''/srv/app'' = (Some (example_app ''myapp''), None)"
      by (rule readApp_example)
    show "(False \<and> urlError example_platform ''http://localhost:8000'' = None \<and>
             urlError example_platform ''http://localhost:8080'' = None)
          \<or> (\<not> False \<and> (\<exists>a. Some (example_app ''myapp'') = Some a \<and>
                urlError example_platform ''https://appengine.google.com'' = None \<and>
                urlError example_platform (''https://'' @ Application a @ ''.appspot.com'') = None))"
      by (simp add: example_platform_def example_app_def)
    show "userCurrent example_platform = Inr ''/home/alice''" by (simp add: example_platform_def)
    show "files example_world (''/home/alice'' @ ''/.cookies'') = None
          \<or> (\<exists>bytes err. files example_world (''/home/alice'' @ ''/.cookies'') = Some bytes \<and>
                gobDecode example_platform bytes = Inl err)"
      by (simp add: example_world_def)
  qed
  let ?w = "example_world\<lparr>files := (files example_world)(''/home/alice/.cookies'' \<mapsto> ''garbage'')\<rparr>"
  show "\<exists>s. NewSession example_platform ?w ''/tmp'' True = Returns (Some s, None) \<and>
        client s = Some [] \<and>
        ServiceURL s = Some (URL_of (ServiceScheme s @ ''://'' @ ServiceHost s)) \<and>
        AppURL s = Some (URL_of (AppScheme s @ ''://'' @ AppHost s))"
  proof (rule NewSession_without_cookies [where home = "''/home/alice''"])
    show "readApp example_platform ?w ''/tmp'' =
            (None, Some (Err ''open /tmp/app.yaml: no such file or directory''))"
      by (simp add: readApp_def ioutil_ReadFile_def example_platform_def example_world_def
          not_exist_def)
    show "(True \<and> urlError example_platform ''http://localhost:8000'' = None \<and>
             urlError example_platform ''http://localhost:8080'' = None)
          \<or> (\<not> True \<and> (\<exists>a. None = Some a \<and>
                urlError example_platform ''https://appengine.google.com'' = None \<and>
                urlError example_platform (''https://'' @ Application a @ ''.appspot.com'') = None))"
      by (simp add: example_platform_def)
    show "userCurrent example_platform = Inr ''/home/alice''" by (simp add: example_platform_def)
    show "files ?w (''/home/alice'' @ ''/.cookies'') = None
          \<or> (\<exists>bytes err. files ?w (''/home/alice'' @ ''/.cookies'') = Some bytes \<and>
                gobDecode example_platform bytes = Inl err)"
      by (simp add: example_platform_def example_render_def example_trays_def
          example_bare_cookie_def)
  qed
qed

text \<open>
  C8. A missing or unparseable application descriptor is meant to surface as an error
  of \<^verbatim>\<open>NewSession\<close>. The code at a directory without \<^verbatim>\<open>app.yaml\<close>: \<^verbatim>\<open>readApp\<close>
  returns the error, and \<^verbatim>\<open>NewSession\<close> in local mode returns a session whose \<open>App\<close> is
  nil together with the nil error, while in remote mode it panics on the nil \<open>app\<close>.
\<close>

theorem NewSession_drops_readApp_error:
  "readApp example_platform example_world ''/tmp'' =
     (None, Some (Err ''open /tmp/app.yaml: no such file or directory''))
   \<and> NewSession example_platform example_world ''/tmp'' True =
       Returns (Some \<lparr>Local = True, Source = [], ServiceHost = ''localhost:8000'',
                      ServiceScheme = ''http'', ServiceURL = Some (URL_of ''http://localhost:8000''),
                      AppHost = ''localhost:8080'', AppScheme = ''http'',
                      AppURL = Some (URL_of ''http://localhost:8080''),
                      App = None, client = Some []\<rparr>, None)
   \<and> NewSession example_platform example_world ''/tmp'' False = Panics"
  by (simp add: NewSession_def readApp_def ioutil_ReadFile_def url_Parse_def cookiejar_New_def
      cookieFileName_def Let_def example_platform_def example_world_def os_Open_def not_exist_def)

section \<open>readCredentials\<close>

text \<open>
  C9. A failure to put the terminal into raw mode is meant to come back as a non-nil
  error. The code returns the nil error on every path, whatever the terminal calls
  answered.
\<close>

theorem readCredentials_returns_nil_error: "snd (snd (readCredentials p)) = None"
  by (simp add: readCredentials_def Let_def split: prod.splits)

section \<open>Signin\<close>

text \<open>
  C1 (as amended). In a remote sign-in whose identity-provider response has a line
  \<^verbatim>\<open>Auth=<token>\<close> and no line that starts with \<^verbatim>\<open>Error=\<close>, and in which the cookie file
  is created and encoded without error, \<^verbatim>\<open>Signin\<close> returns the nil error and the cookie
  file holds the encoding of exactly two trays, the application endpoint's followed by
  the service endpoint's, whether the application identifier is empty or not.
\<close>

theorem Signin_saves_two_trays:
  assumes remote: "\<not> Local s"
    and response:
      "httpGet p (ClientLogin p (fst (readCredentials p)) (fst (snd (readCredentials p)))) =
         Inr (Inr contents)"
    and auth: "''Auth='' @ token \<in> set (strings_Split contents (CHR 0x0A))"
    and no_error: "\<forall>line \<in> set (strings_Split contents (CHR 0x0A)). take 6 line \<noteq> ''Error=''"
    and app: "App s = Some app"
    and urls: "AppURL s = Some au" "ServiceURL s = Some su"
    and home: "userCurrent p = Inr home"
    and create: "denied p OpCreate (home @ ''/.cookies'') = None"
    and encode: "\<And>trays. snd (gobEncode p trays) = None"
  shows "\<exists>w' appTray serviceTray.
           Signin p s w = Returns (w', None) \<and>
           files w' (home @ ''/.cookies'') = Some (fst (gobEncode p [appTray, serviceTray])) \<and>
           Path appTray = AppScheme s @ ''://'' @ AppHost s \<and>
           Path serviceTray = ServiceScheme s @ ''://'' @ ServiceHost s"
proof -
  define m where "m = Signin_values (strings_Split contents (CHR 0x0A)) Map.empty"
  have "m ''Error'' = None"
    unfolding m_def using no_error by (rule no_Error_line)
  then have stage1:
    "Signin_authenticate p s (fst (readCredentials p)) (fst (snd (readCredentials p))) w =
       (w\<lparr>requests := requests w @
            [ClientLogin p (fst (readCredentials p)) (fst (snd (readCredentials p)))]\<rparr>, Inr m)"
    using remote response by (simp add: Signin_authenticate_def Let_def m_def)
  define jar where
    "jar = (if Application app = []
            then fst (clientGet p [] (serviceLogin p s (Signin_query s m (fst (readCredentials p)))))
            else fst (clientGet p
                   (fst (clientGet p [] (serviceLogin p s (Signin_query s m (fst (readCredentials p))))))
                   (appLogin p s (Signin_query s m (fst (readCredentials p))))))"
  define appTray where
    "appTray = \<lparr>Cookies = jarCookies p jar au, Path = AppScheme s @ ''://'' @ AppHost s\<rparr>"
  define serviceTray where
    "serviceTray =
       \<lparr>Cookies = jarCookies p jar su, Path = ServiceScheme s @ ''://'' @ ServiceHost s\<rparr>"
  obtain w' where run: "Signin p s w = Returns (w', None)"
    and written: "files w' (home @ ''/.cookies'') = Some (fst (gobEncode p [appTray, serviceTray]))"
    using Signin_after_authenticate [OF stage1 app urls home refl refl jar_def refl refl]
      create encode
    by (simp add: appTray_def serviceTray_def)
  have "Path appTray = AppScheme s @ ''://'' @ AppHost s"
    and "Path serviceTray = ServiceScheme s @ ''://'' @ ServiceHost s"
    by (simp_all add: appTray_def serviceTray_def)
  with run written show ?thesis by blast
qed

theorem Signin_saves_two_trays_witness:
  "\<exists>w' appTray serviceTray.
     Signin example_platform (example_session ''myapp'') example_world = Returns (w', None) \<and>
     files w' (''/home/alice'' @ ''/.cookies'') =
       Some (fst (gobEncode example_platform [appTray, serviceTray])) \<and>
     Path appTray =
       AppScheme (example_session ''myapp'') @ ''://'' @ AppHost (example_session ''myapp'') \<and>
     Path serviceTray =
       ServiceScheme (example_session ''myapp'') @ ''://'' @ ServiceHost (example_session ''myapp'')"
proof (rule Signin_saves_two_trays [where token = "''tok''"
      and contents = "''SID=s1'' @ [CHR 0x0A] @ ''Auth=tok'' @ [CHR 0x0A]"])
  show "\<not> Local (example_session ''myapp'')" by (simp add: example_session_def)
  show "httpGet example_platform
          (ClientLogin example_platform (fst (readCredentials example_platform))
             (fst (snd (readCredentials example_platform)))) =
        Inr (Inr (''SID=s1'' @ [CHR 0x0A] @ ''Auth=tok'' @ [CHR 0x0A]))"
    by (simp add: example_platform_def)
  show "''Auth='' @ ''tok'' \<in> set (strings_Split (''SID=s1'' @ [CHR 0x0A] @ ''Auth=tok'' @ [CHR 0x0A])
          (CHR 0x0A))"
    by (simp add: strings_Split_def)
  show "\<forall>line \<in> set (strings_Split (''SID=s1'' @ [CHR 0x0A] @ ''Auth=tok'' @ [CHR 0x0A]) (CHR 0x0A)).
          take 6 line \<noteq> ''Error=''"
    by (simp add: strings_Split_def)
  show "App (example_session ''myapp'') = Some (example_app ''myapp'')"
    by (simp add: example_session_def)
  show "AppURL (example_session ''myapp'') = Some (URL_of (''https://'' @ ''myapp'' @ ''.appspot.com''))"
    by (simp add: example_session_def)
  show "ServiceURL (example_session ''myapp'') = Some (URL_of ''https://appengine.google.com'')"
    by (simp add: example_session_def)
  show "userCurrent example_platform = Inr ''/home/alice''" by (simp add: example_platform_def)
  show "denied example_platform OpCreate (''/home/alice'' @ ''/.cookies'') = None"
    by (simp add: example_platform_def)
  show "\<And>trays. snd (gobEncode example_platform trays) = None"
    by (simp add: example_platform_def)
qed

text \<open>
  The claim as stated fails for the empty application identifier: the file then holds
  two trays as well, the first for \<^verbatim>\<open>https://.appspot.com\<close> with no cookie.
\<close>

theorem Signin_empty_identifier_two_trays:
  "App (example_session []) = Some (example_app [])
   \<and> Application (example_app []) = []
   \<and> Signin example_platform (example_session []) example_world =
       Returns
         (example_world
            \<lparr>requests :=
               [ClientLogin example_platform ''alice@example.com'' ''secret'',
                serviceLogin example_platform (example_session [])
                  [(''continue'', ''http://localhost''), (''auth'', ''tok'')]],
             files := (files example_world)
               (''/home/alice/.cookies'' \<mapsto>
                  fst (gobEncode example_platform
                    [\<lparr>Cookies = [], Path = ''https://.appspot.com''\<rparr>,
                     \<lparr>Cookies = [\<lparr>Name = ''ACSID'', Value = ''AJKiYcE'', Domain = [],
                                   CookiePath = [], Expires = [], Secure = False,
                                   HttpOnly = False\<rparr>],
                      Path = ''https://appengine.google.com''\<rparr>]))\<rparr>,
          None)"
proof (intro conjI)
  show app: "App (example_session []) = Some (example_app [])"
    by (simp add: example_session_def)
  show "Application (example_app []) = []" by (simp add: example_app_def)
  let ?v2 = "[(''continue'', ''http://localhost''), (''auth'', ''tok'')]"
  let ?jar = "[(URL_of (serviceLogin example_platform (example_session []) ?v2), [example_cookie])]"
  have stage1: "Signin_authenticate example_platform (example_session [])
      (fst (readCredentials example_platform)) (fst (snd (readCredentials example_platform)))
      example_world =
      (example_world\<lparr>requests := [ClientLogin example_platform ''alice@example.com'' ''secret'']\<rparr>,
       Inr [''SID'' \<mapsto> ''s1'', ''Auth'' \<mapsto> ''tok''])"
    by (simp add: example_credentials example_authenticate)
  have au: "AppURL (example_session []) = Some (URL_of ''https://.appspot.com'')"
    and su: "ServiceURL (example_session []) = Some (URL_of ''https://appengine.google.com'')"
    by (simp_all add: example_session_def)
  have home: "userCurrent example_platform = Inr ''/home/alice''"
    by (simp add: example_platform_def)
  have v2: "?v2 = Signin_query (example_session []) [''SID'' \<mapsto> ''s1'', ''Auth'' \<mapsto> ''tok'']
              (fst (readCredentials example_platform))"
    by (simp add: example_query)
  have jar1: "?jar = fst (clientGet example_platform []
                (serviceLogin example_platform (example_session []) ?v2))"
    by (simp add: example_platform_def)
  have jar2: "?jar = (if Application (example_app []) = [] then ?jar
                      else fst (clientGet example_platform ?jar
                        (appLogin example_platform (example_session []) ?v2)))"
    by (simp add: example_app_def)
  have trays:
    "[\<lparr>Cookies = [], Path = ''https://.appspot.com''\<rparr>,
      \<lparr>Cookies = [\<lparr>Name = ''ACSID'', Value = ''AJKiYcE'', Domain = [], CookiePath = [],
                    Expires = [], Secure = False, HttpOnly = False\<rparr>],
       Path = ''https://appengine.google.com''\<rparr>] =
     [\<lparr>Cookies = jarCookies example_platform ?jar (URL_of ''https://.appspot.com''),
       Path = AppScheme (example_session []) @ ''://'' @ AppHost (example_session [])\<rparr>,
      \<lparr>Cookies = jarCookies example_platform ?jar (URL_of ''https://appengine.google.com''),
       Path = ServiceScheme (example_session []) @ ''://'' @ ServiceHost (example_session [])\<rparr>]"
    by (simp add: example_platform_def example_jarCookies_def example_session_def
        example_cookie_def serviceLogin_def)
  have reqs:
    "[ClientLogin example_platform ''alice@example.com'' ''secret'',
      serviceLogin example_platform (example_session []) ?v2] =
     requests (example_world\<lparr>requests :=
                 [ClientLogin example_platform ''alice@example.com'' ''secret'']\<rparr>) @
       (if Application (example_app []) = []
        then [serviceLogin example_platform (example_session []) ?v2]
        else [serviceLogin example_platform (example_session []) ?v2,
              appLogin example_platform (example_session []) ?v2])"
    by (simp add: example_app_def)
  have create: "denied example_platform OpCreate (''/home/alice'' @ ''/.cookies'') = None"
    and encode: "\<And>trays. snd (gobEncode example_platform trays) = None"
    by (simp_all add: example_platform_def)
  show "Signin example_platform (example_session []) example_world =
       Returns
         (example_world
            \<lparr>requests :=
               [ClientLogin example_platform ''alice@example.com'' ''secret'',
                serviceLogin example_platform (example_session []) ?v2],
             files := (files example_world)
               (''/home/alice/.cookies'' \<mapsto>
                  fst (gobEncode example_platform
                    [\<lparr>Cookies = [], Path = ''https://.appspot.com''\<rparr>,
                     \<lparr>Cookies = [\<lparr>Name = ''ACSID'', Value = ''AJKiYcE'', Domain = [],
                                   CookiePath = [], Expires = [], Secure = False,
                                   HttpOnly = False\<rparr>],
                      Path = ''https://appengine.google.com''\<rparr>]))\<rparr>,
          None)"
    unfolding Signin_after_authenticate [OF stage1 app au su home v2 jar1 jar2 trays reqs]
    using create encode by simp
qed

text \<open>
  C2. In a remote sign-in whose parsed response maps \<^verbatim>\<open>Error\<close> to
  \<^verbatim>\<open>BadAuthentication\<close>, \<^verbatim>\<open>Signin\<close> returns an error with exactly that message; no file
  is written, and the request to the identity provider is the only one sent.
\<close>

theorem Signin_BadAuthentication:
  assumes remote: "\<not> Local s"
    and response:
      "httpGet p (ClientLogin p (fst (readCredentials p)) (fst (snd (readCredentials p)))) =
         Inr (Inr contents)"
    and bad: "Signin_values (strings_Split contents (CHR 0x0A)) Map.empty ''Error'' =
                Some ''BadAuthentication''"
  shows "\<exists>w'. Signin p s w = Returns (w', Some (Err ''BadAuthentication'')) \<and>
              files w' = files w \<and>
              requests w' = requests w @
                [ClientLogin p (fst (readCredentials p)) (fst (snd (readCredentials p)))]"
  using assms
  by (cases "readCredentials p")
    (simp add: Signin_def Signin_authenticate_def errors_New_def Let_def)

theorem Signin_BadAuthentication_witness:
  "\<exists>w'. Signin bad_credentials_platform (example_session ''myapp'') example_world =
         Returns (w', Some (Err ''BadAuthentication'')) \<and>
        files w' = files example_world \<and>
        requests w' = requests example_world @
          [ClientLogin bad_credentials_platform (fst (readCredentials bad_credentials_platform))
             (fst (snd (readCredentials bad_credentials_platform)))]"
proof (rule Signin_BadAuthentication [where contents = "''Error=BadAuthentication'' @ [CHR 0x0A]"])
  show "\<not> Local (example_session ''myapp'')" by (simp add: example_session_def)
  show "httpGet bad_credentials_platform
          (ClientLogin bad_credentials_platform (fst (readCredentials bad_credentials_platform))
             (fst (snd (readCredentials bad_credentials_platform)))) =
        Inr (Inr (''Error=BadAuthentication'' @ [CHR 0x0A]))"
    by (simp add: bad_credentials_platform_def)
  show "Signin_values (strings_Split (''Error=BadAuthentication'' @ [CHR 0x0A]) (CHR 0x0A)) Map.empty
          ''Error'' = Some ''BadAuthentication''"
    by (simp add: strings_Split_def)
qed

text \<open>
  C6 (as amended). A failure of a login request of stage 2 is not returned. Once stage 1
  has passed, \<^verbatim>\<open>Signin\<close> sends the service login request once, and the application login
  request once when the application identifier is not empty; whatever the two requests
  answer, errors included, it goes on to write the cookie file, and when the file is
  created and encoded without error it returns the nil error.
\<close>

theorem Signin_discards_login_errors:
  assumes stage1:
      "Signin_authenticate p s (fst (readCredentials p)) (fst (snd (readCredentials p))) w =
         (w1, Inr values)"
    and v2: "v2 = Signin_query s values (fst (readCredentials p))"
    and app: "App s = Some app"
    and urls: "AppURL s = Some au" "ServiceURL s = Some su"
    and home: "userCurrent p = Inr home"
    and create: "denied p OpCreate (home @ ''/.cookies'') = None"
    and encode: "\<And>trays. snd (gobEncode p trays) = None"
  shows "\<exists>w'. Signin p s w = Returns (w', None) \<and>
              requests w' = requests w1 @
                (if Application app = [] then [serviceLogin p s v2]
                 else [serviceLogin p s v2, appLogin p s v2]) \<and>
              files w' (home @ ''/.cookies'') \<noteq> None"
  using Signin_after_authenticate [OF stage1 app urls home v2 refl refl refl refl] create encode
  by simp

theorem Signin_discards_login_errors_witness:
  "\<exists>w'. Signin login_down_platform (example_session ''myapp'') example_world = Returns (w', None) \<and>
     requests w' =
       requests (example_world\<lparr>requests :=
                   [ClientLogin login_down_platform ''alice@example.com'' ''secret'']\<rparr>) @
         (if Application (example_app ''myapp'') = []
          then [serviceLogin login_down_platform (example_session ''myapp'')
                  [(''continue'', ''http://localhost''), (''auth'', ''tok'')]]
          else [serviceLogin login_down_platform (example_session ''myapp'')
                  [(''continue'', ''http://localhost''), (''auth'', ''tok'')],
                appLogin login_down_platform (example_session ''myapp'')
                  [(''continue'', ''http://localhost''), (''auth'', ''tok'')]]) \<and>
     files w' (''/home/alice'' @ ''/.cookies'') \<noteq> None"
proof (rule Signin_discards_login_errors)
  show "Signin_authenticate login_down_platform (example_session ''myapp'')
      (fst (readCredentials login_down_platform)) (fst (snd (readCredentials login_down_platform)))
      example_world =
      (example_world\<lparr>requests := [ClientLogin login_down_platform ''alice@example.com'' ''secret'']\<rparr>,
       Inr [''SID'' \<mapsto> ''s1'', ''Auth'' \<mapsto> ''tok''])"
    by (simp add: login_down_credentials login_down_authenticate)
  show "[(''continue'', ''http://localhost''), (''auth'', ''tok'')] =
          Signin_query (example_session ''myapp'') [''SID'' \<mapsto> ''s1'', ''Auth'' \<mapsto> ''tok'']
            (fst (readCredentials login_down_platform))"
    by (simp add: example_query)
  show "App (example_session ''myapp'') = Some (example_app ''myapp'')"
    and "AppURL (example_session ''myapp'') = Some (URL_of ''https://myapp.appspot.com'')"
    and "ServiceURL (example_session ''myapp'') = Some (URL_of ''https://appengine.google.com'')"
    by (simp_all add: example_session_def)
  show "userCurrent login_down_platform = Inr ''/home/alice''"
    and "denied login_down_platform OpCreate (''/home/alice'' @ ''/.cookies'') = None"
    and "\<And>trays. snd (gobEncode login_down_platform trays) = None"
    by (simp_all add: login_down_platform_def example_platform_def)
qed

text \<open>
  The claim as stated fails when the login endpoints refuse the connection: the error of
  the request is not what \<^verbatim>\<open>Signin\<close> returns, and a cookie file with two empty trays is
  written.
\<close>

theorem Signin_login_error_not_returned:
  "clientGet login_down_platform []
     (serviceLogin login_down_platform (example_session ''myapp'')
        [(''continue'', ''http://localhost''), (''auth'', ''tok'')]) =
     ([], Some (Err ''dial tcp: connection refused''))
   \<and> Signin login_down_platform (example_session ''myapp'') example_world =
       Returns
         (example_world
            \<lparr>requests :=
               [ClientLogin login_down_platform ''alice@example.com'' ''secret'',
                serviceLogin login_down_platform (example_session ''myapp'')
                  [(''continue'', ''http://localhost''), (''auth'', ''tok'')],
                appLogin login_down_platform (example_session ''myapp'')
                  [(''continue'', ''http://localhost''), (''auth'', ''tok'')]],
             files := (files example_world)
               (''/home/alice/.cookies'' \<mapsto>
                  fst (gobEncode login_down_platform
                    [\<lparr>Cookies = [], Path = ''https://myapp.appspot.com''\<rparr>,
                     \<lparr>Cookies = [], Path = ''https://appengine.google.com''\<rparr>]))\<rparr>,
          None)"
proof
  show "clientGet login_down_platform []
     (serviceLogin login_down_platform (example_session ''myapp'')
        [(''continue'', ''http://localhost''), (''auth'', ''tok'')]) =
     ([], Some (Err ''dial tcp: connection refused''))"
    by (simp add: login_down_platform_def)
  have stage1: "Signin_authenticate login_down_platform (example_session ''myapp'')
      (fst (readCredentials login_down_platform)) (fst (snd (readCredentials login_down_platform)))
      example_world =
      (example_world\<lparr>requests := [ClientLogin login_down_platform ''alice@example.com'' ''secret'']\<rparr>,
       Inr [''SID'' \<mapsto> ''s1'', ''Auth'' \<mapsto> ''tok''])"
    by (simp add: login_down_credentials login_down_authenticate)
  have app: "App (example_session ''myapp'') = Some (example_app ''myapp'')"
    and au: "AppURL (example_session ''myapp'') = Some (URL_of ''https://myapp.appspot.com'')"
    and su: "ServiceURL (example_session ''myapp'') = Some (URL_of ''https://appengine.google.com'')"
    by (simp_all add: example_session_def)
  have home: "userCurrent login_down_platform = Inr ''/home/alice''"
    by (simp add: login_down_platform_def example_platform_def)
  show "Signin login_down_platform (example_session ''myapp'') example_world =
       Returns
         (example_world
            \<lparr>requests :=
               [ClientLogin login_down_platform ''alice@example.com'' ''secret'',
                serviceLogin login_down_platform (example_session ''myapp'')
                  [(''continue'', ''http://localhost''), (''auth'', ''tok'')],
                appLogin login_down_platform (example_session ''myapp'')
                  [(''continue'', ''http://localhost''), (''auth'', ''tok'')]],
             files := (files example_world)
               (''/home/alice/.cookies'' \<mapsto>
                  fst (gobEncode login_down_platform
                    [\<lparr>Cookies = [], Path = ''https://myapp.appspot.com''\<rparr>,
                     \<lparr>Cookies = [], Path = ''https://appengine.google.com''\<rparr>]))\<rparr>,
          None)"
  proof -
    let ?v2 = "[(''continue'', ''http://localhost''), (''auth'', ''tok'')]"
    have v2: "?v2 = Signin_query (example_session ''myapp'') [''SID'' \<mapsto> ''s1'', ''Auth'' \<mapsto> ''tok'']
                (fst (readCredentials login_down_platform))"
      by (simp add: example_query)
    have jar1: "[] = fst (clientGet login_down_platform []
                  (serviceLogin login_down_platform (example_session ''myapp'') ?v2))"
      by (simp add: login_down_platform_def)
    have jar2: "[] = (if Application (example_app ''myapp'') = [] then []
                      else fst (clientGet login_down_platform []
                        (appLogin login_down_platform (example_session ''myapp'') ?v2)))"
      by (simp add: login_down_platform_def)
    have trays:
      "[\<lparr>Cookies = [], Path = ''https://myapp.appspot.com''\<rparr>,
        \<lparr>Cookies = [], Path = ''https://appengine.google.com''\<rparr>] =
       [\<lparr>Cookies = jarCookies login_down_platform [] (URL_of ''https://myapp.appspot.com''),
         Path = AppScheme (example_session ''myapp'') @ ''://'' @ AppHost (example_session ''myapp'')\<rparr>,
        \<lparr>Cookies = jarCookies login_down_platform [] (URL_of ''https://appengine.google.com''),
         Path = ServiceScheme (example_session ''myapp'') @ ''://'' @
                  ServiceHost (example_session ''myapp'')\<rparr>]"
      by (simp add: login_down_platform_def example_platform_def example_jarCookies_def
          example_session_def)
    have reqs:
      "[ClientLogin login_down_platform ''alice@example.com'' ''secret'',
        serviceLogin login_down_platform (example_session ''myapp'') ?v2,
        appLogin login_down_platform (example_session ''myapp'') ?v2] =
       requests (example_world\<lparr>requests :=
                   [ClientLogin login_down_platform ''alice@example.com'' ''secret'']\<rparr>) @
         (if Application (example_app ''myapp'') = []
          then [serviceLogin login_down_platform (example_session ''myapp'') ?v2]
          else [serviceLogin login_down_platform (example_session ''myapp'') ?v2,
                appLogin login_down_platform (example_session ''myapp'') ?v2])"
      by (simp add: example_app_def)
    have create: "denied login_down_platform OpCreate (''/home/alice'' @ ''/.cookies'') = None"
      and encode: "snd (gobEncode login_down_platform
                     [\<lparr>Cookies = [], Path = ''https://myapp.appspot.com''\<rparr>,
                      \<lparr>Cookies = [], Path = ''https://appengine.google.com''\<rparr>]) = None"
      by (simp_all add: login_down_platform_def example_platform_def)
    show ?thesis
      unfolding Signin_after_authenticate [OF stage1 app au su home v2 jar1 jar2 trays reqs]
      using create encode by simp
  qed
qed

section \<open>Signout\<close>

text \<open>
  C7 (as amended). \<^verbatim>\<open>Signout\<close> returns what \<^verbatim>\<open>os.Remove\<close> returns for the cookie file.
  When removing the file is not refused: a file that exists is deleted and the error is
  nil; a file that is already absent gives the error that no such file exists; in both
  cases the file does not exist afterwards, and nothing else changes.
\<close>

theorem Signout_removes_cookie_file:
  assumes home: "userCurrent p = Inr home"
    and allowed: "denied p OpRemove (home @ ''/.cookies'') = None"
  shows "\<exists>w'. Signout p s w =
                Returns (w', if files w (home @ ''/.cookies'') = None
                             then Some (not_exist ''remove'' (home @ ''/.cookies'')) else None) \<and>
              files w' = (files w)(home @ ''/.cookies'' := None) \<and>
              requests w' = requests w"
  using assms
  by (cases "files w (home @ ''/.cookies'')")
    (auto simp: Signout_def cookieFileName_def os_Remove_def)

theorem Signout_removes_cookie_file_witness:
  "(\<exists>w'. Signout example_platform (example_session ''myapp'')
            (example_world\<lparr>files := (files example_world)(''/home/alice/.cookies'' \<mapsto> ''saved'')\<rparr>) =
          Returns (w', None) \<and>
        files w' ''/home/alice/.cookies'' = None)
   \<and> (\<exists>w'. Signout example_platform (example_session ''myapp'') example_world =
          Returns (w', Some (not_exist ''remove'' ''/home/alice/.cookies'')) \<and>
        files w' ''/home/alice/.cookies'' = None)"
proof -
  have home: "userCurrent example_platform = Inr ''/home/alice''"
    and allowed: "denied example_platform OpRemove (''/home/alice'' @ ''/.cookies'') = None"
    by (simp_all add: example_platform_def)
  show ?thesis
    using Signout_removes_cookie_file [OF home allowed, of "example_session ''myapp''"
        "example_world\<lparr>files := (files example_world)(''/home/alice/.cookies'' \<mapsto> ''saved'')\<rparr>"]
      Signout_removes_cookie_file [OF home allowed, of "example_session ''myapp''" example_world]
    by (auto simp: example_world_def)
qed

text \<open>The claim as stated fails for an absent file: the call returns an error.\<close>

theorem Signout_absent_file_is_error:
  "files example_world ''/home/alice/.cookies'' = None
   \<and> Signout example_platform (example_session ''myapp'') example_world =
       Returns (example_world, Some (Err ''remove /home/alice/.cookies: no such file or directory''))"
  by (simp add: Signout_def cookieFileName_def os_Remove_def example_platform_def example_world_def
      not_exist_def)

section \<open>The cookie file: saved, then loaded\<close>



end
